theory Spec2Isabelle
  imports Complex_Main
begin

section \<open>JavaScript values\<close>

text \<open>
  The worker (\<^verbatim>\<open>src/index.ts\<close>) handles values of type \<^verbatim>\<open>any\<close>: the parsed request
  body and whatever the inference binding \<^verbatim>\<open>env.AI.run\<close> resolves to. They are modelled by
  the tree type \<open>jsval\<close>. An object is the list of its own properties in insertion order;
  a property is looked up with \<open>map_of\<close>. Numbers are rationals plus \<open>NaN\<close>; the only
  thing the worker ever asks of a number is whether it is truthy.
\<close>

datatype jsval =
    JUndefined
  | JNull
  | JBool bool
  | JNaN
  | JNum rat
  | JStr string
  | JArr "jsval list"
  | JObj "(string \<times> jsval) list"

text \<open>A thrown value: an instance of \<^verbatim>\<open>Error\<close> with its message, or anything else.\<close>

datatype thrown = Error string | Non_Error jsval

text \<open>\<^verbatim>\<open>error instanceof Error ? error.message : 'Unknown error'\<close>\<close>

fun error_message :: "thrown \<Rightarrow> jsval" where
  "error_message (Error m) = JStr m"
| "error_message (Non_Error v) = JStr ''Unknown error''"

text \<open>ToBoolean, as used by \<^verbatim>\<open>!\<close> and \<^verbatim>\<open>||\<close>.\<close>

fun truthy :: "jsval \<Rightarrow> bool" where
  "truthy JUndefined = False"
| "truthy JNull = False"
| "truthy (JBool b) = b"
| "truthy JNaN = False"
| "truthy (JNum n) = (n \<noteq> 0)"
| "truthy (JStr s) = (s \<noteq> [])"
| "truthy (JArr xs) = True"
| "truthy (JObj kvs) = True"

text \<open>\<^verbatim>\<open>a || b\<close>\<close>

definition js_or :: "jsval \<Rightarrow> jsval \<Rightarrow> jsval" where
  "js_or a b = (if truthy a then a else b)"

fun Array_isArray :: "jsval \<Rightarrow> bool" where
  "Array_isArray (JArr xs) = True"
| "Array_isArray v = False"

text \<open>
  Property read \<^verbatim>\<open>v.k\<close>. Reading a property of \<^verbatim>\<open>null\<close> or \<^verbatim>\<open>undefined\<close> throws a
  TypeError (the message is V8's wording). The worker reads only the names \<^verbatim>\<open>messages\<close>,
  \<^verbatim>\<open>model\<close>, \<^verbatim>\<open>stream\<close>, \<^verbatim>\<open>input\<close>, \<^verbatim>\<open>response\<close> and \<^verbatim>\<open>data\<close>, none of which is a
  built-in property of a string, number, boolean or array, so those yield \<^verbatim>\<open>undefined\<close>.
\<close>

fun get_prop :: "jsval \<Rightarrow> string \<Rightarrow> thrown + jsval" where
  "get_prop JUndefined k =
     Inl (Error (''Cannot read properties of undefined (reading '' @ [CHR 0x27] @ k @ [CHR 0x27] @ '')''))"
| "get_prop JNull k =
     Inl (Error (''Cannot read properties of null (reading '' @ [CHR 0x27] @ k @ [CHR 0x27] @ '')''))"
| "get_prop (JObj kvs) k = Inr (case map_of kvs k of None \<Rightarrow> JUndefined | Some v \<Rightarrow> v)"
| "get_prop v k = Inr JUndefined"

text \<open>Decimal rendering of a non-negative integer, as a template literal prints it.\<close>

fun show_nat :: "nat \<Rightarrow> string" where
  "show_nat n =
     (if n < 10 then [''0123456789'' ! n]
      else show_nat (n div 10) @ [''0123456789'' ! (n mod 10)])"

text \<open>
  Own enumerable properties of a value, as object destructuring sees them: the properties
  of an object, the indexed elements of an array or of a string, nothing for a number or
  a boolean.
\<close>

fun own_props :: "jsval \<Rightarrow> (string \<times> jsval) list" where
  "own_props (JObj kvs) = kvs"
| "own_props (JArr xs) = zip (map show_nat [0..<length xs]) xs"
| "own_props (JStr s) = zip (map show_nat [0..<length s]) (map (\<lambda>c. JStr [c]) s)"
| "own_props v = []"

text \<open>
  An object destructuring pattern \<^verbatim>\<open>const { a, b = d, ...rest } = v\<close>: it throws a TypeError
  when \<open>v\<close> is \<^verbatim>\<open>null\<close> or \<^verbatim>\<open>undefined\<close>; a default applies when the property is
  \<^verbatim>\<open>undefined\<close>; the rest element collects the own properties not named in the pattern.
\<close>

fun destructurable :: "jsval \<Rightarrow> string \<Rightarrow> thrown + unit" where
  "destructurable JUndefined k =
     Inl (Error (''Cannot destructure property '' @ [CHR 0x27] @ k @ [CHR 0x27] @ '' of ''
                 @ [CHR 0x27] @ ''body'' @ [CHR 0x27] @ '' as it is undefined.''))"
| "destructurable JNull k =
     Inl (Error (''Cannot destructure property '' @ [CHR 0x27] @ k @ [CHR 0x27] @ '' of ''
                 @ [CHR 0x27] @ ''body'' @ [CHR 0x27] @ '' as it is null.''))"
| "destructurable v k = Inr ()"

definition field :: "jsval \<Rightarrow> string \<Rightarrow> jsval" where
  "field v k = (case get_prop v k of Inl e \<Rightarrow> JUndefined | Inr x \<Rightarrow> x)"

definition with_default :: "jsval \<Rightarrow> jsval \<Rightarrow> jsval" where
  "with_default v d = (if v = JUndefined then d else v)"

definition rest_props :: "string list \<Rightarrow> jsval \<Rightarrow> (string \<times> jsval) list" where
  "rest_props ks v = filter (\<lambda>(k, x). k \<notin> set ks) (own_props v)"

section \<open>Requests, responses and the outside world\<close>

text \<open>
  Of a \<^verbatim>\<open>Request\<close> the worker reads the method, the path name of the URL and the result
  of \<^verbatim>\<open>await request.json()\<close>, which either yields the parsed body or rejects (a body that
  is not JSON rejects with a SyntaxError).
\<close>

record request =
  "method" :: string
  pathname :: string
  json :: "thrown + jsval"

text \<open>
  A \<^verbatim>\<open>Response\<close>: status, headers, and the body, which is either \<^verbatim>\<open>null\<close> or the text
  \<^verbatim>\<open>JSON.stringify(v)\<close>, kept as the value \<open>v\<close> that is serialised.
\<close>

datatype body = Null_body | JSON_stringify jsval

type_synonym headers = "string \<rightharpoonup> string"

record response =
  status :: nat
  headers :: headers
  resp_body :: body

text \<open>
  The outside world has a state \<open>'s\<close> of its own. \<^verbatim>\<open>env.AI.run(model, params)\<close> resolves to a
  value or rejects with a thrown value, and \<^verbatim>\<open>Date.now()\<close> reads the clock in milliseconds;
  both may change the state. Every call of the backend is recorded in a trace, with its
  arguments and its outcome, so that "the backend is not invoked" is a statement about
  the trace.
\<close>

record 's env =
  AI_run :: "jsval \<Rightarrow> jsval \<Rightarrow> 's \<Rightarrow> (thrown + jsval) \<times> 's"
  Date_now :: "'s \<Rightarrow> nat \<times> 's"

record call =
  call_model :: jsval
  call_params :: jsval
  call_outcome :: "thrown + jsval"

record 's world =
  ext :: 's
  trace :: "call list"

definition run :: "'s env \<Rightarrow> jsval \<Rightarrow> jsval \<Rightarrow> 's world \<Rightarrow> (thrown + jsval) \<times> 's world" where
  "run env model params w =
     (case AI_run env model params (ext w) of
        (out, s) \<Rightarrow>
          (out, \<lparr>ext = s,
                 trace = trace w @ [\<lparr>call_model = model, call_params = params, call_outcome = out\<rparr>]\<rparr>))"

definition now :: "'s env \<Rightarrow> 's world \<Rightarrow> nat \<times> 's world" where
  "now env w = (case Date_now env (ext w) of (t, s) \<Rightarrow> (t, w\<lparr>ext := s\<rparr>))"

text \<open>
  \<^verbatim>\<open>new Response(JSON.stringify(v), { status, headers: { 'Content-Type': 'application/json',
  ...corsHeaders } })\<close>. In an object literal a spread property overrides an earlier one of
  the same name, which is \<open>++\<close> on maps.
\<close>

definition json_response :: "nat \<Rightarrow> headers \<Rightarrow> jsval \<Rightarrow> response" where
  "json_response st corsHeaders v =
     \<lparr>status = st,
      headers = [''Content-Type'' \<mapsto> ''application/json''] ++ corsHeaders,
      resp_body = JSON_stringify v\<rparr>"

section \<open>The handlers\<close>

definition models :: jsval where
  "models =
     JObj [(''object'', JStr ''list''),
           (''data'', JArr [
              JObj [(''id'', JStr ''@cf/meta/llama-3.3-70b-instruct-fp8-fast''),
                    (''object'', JStr ''model''), (''created'', JNum 1677610602),
                    (''owned_by'', JStr ''cloudflare'')],
              JObj [(''id'', JStr ''@cf/meta/llama-3.1-70b-instruct''),
                    (''object'', JStr ''model''), (''created'', JNum 1677610602),
                    (''owned_by'', JStr ''cloudflare'')],
              JObj [(''id'', JStr ''@cf/meta/llama-3-8b-instruct''),
                    (''object'', JStr ''model''), (''created'', JNum 1677610602),
                    (''owned_by'', JStr ''cloudflare'')],
              JObj [(''id'', JStr ''@cf/baai/bge-large-en-v1.5''),
                    (''object'', JStr ''model''), (''created'', JNum 1677610602),
                    (''owned_by'', JStr ''cloudflare'')],
              JObj [(''id'', JStr ''@cf/baai/bge-base-en-v1.5''),
                    (''object'', JStr ''model''), (''created'', JNum 1677610602),
                    (''owned_by'', JStr ''cloudflare'')]])]"

definition handleModels :: "headers \<Rightarrow> response" where
  "handleModels corsHeaders = json_response 200 corsHeaders models"

text \<open>
  A handler that awaits the backend returns the response, or the value it lets escape
  (\<open>Inl\<close>), together with the world after it. \<^verbatim>\<open>console.error\<close> is not modelled.
\<close>

definition chat_envelope :: "nat \<Rightarrow> nat \<Rightarrow> jsval \<Rightarrow> jsval \<Rightarrow> jsval" where
  "chat_envelope t_id t_created model content =
     JObj [(''id'', JStr (''chatcmpl-'' @ show_nat t_id)),
           (''object'', JStr ''chat.completion''),
           (''created'', JNum (of_nat (t_created div 1000))),
           (''model'', model),
           (''choices'', JArr [
              JObj [(''index'', JNum 0),
                    (''message'', JObj [(''role'', JStr ''assistant''), (''content'', content)]),
                    (''finish_reason'', JStr ''stop'')]]),
           (''usage'', JObj [(''prompt_tokens'', JNum 0),
                             (''completion_tokens'', JNum 0),
                             (''total_tokens'', JNum 0)])]"

definition handleChatCompletions ::
  "request \<Rightarrow> 's env \<Rightarrow> headers \<Rightarrow> 's world \<Rightarrow> (thrown + response) \<times> 's world" where
  "handleChatCompletions request env corsHeaders w =
     (if method request \<noteq> ''POST'' then
        (Inr (json_response 405 corsHeaders (JObj [(''error'', JStr ''Method not allowed'')])), w)
      else case json request of
        Inl e \<Rightarrow> (Inl e, w)
      | Inr body \<Rightarrow>
         (case destructurable body ''messages'' of
            Inl e \<Rightarrow> (Inl e, w)
          | Inr u \<Rightarrow>
             (let messages = field body ''messages'';
                  model = with_default (field body ''model'')
                            (JStr ''@cf/meta/llama-3.3-70b-instruct-fp8-fast'');
                  stream = with_default (field body ''stream'') (JBool False);
                  otherParams = rest_props [''messages'', ''model'', ''stream''] body
              in
                if \<not> truthy messages \<or> \<not> Array_isArray messages then
                  (Inr (json_response 400 corsHeaders
                          (JObj [(''error'', JStr ''Messages array is required'')])), w)
                else
                  (case run env model
                          (JObj ([(''messages'', messages), (''stream'', stream)] @ otherParams)) w of
                     (Inl error, w1) \<Rightarrow>
                       (Inr (json_response 500 corsHeaders
                               (JObj [(''error'', JStr ''Failed to generate completion''),
                                      (''message'', error_message error)])), w1)
                   | (Inr response, w1) \<Rightarrow>
                       (case now env w1 of (t_id, w2) \<Rightarrow>
                        (case now env w2 of (t_created, w3) \<Rightarrow>
                          (case get_prop response ''response'' of
                             Inl error \<Rightarrow>
                               (Inr (json_response 500 corsHeaders
                                       (JObj [(''error'', JStr ''Failed to generate completion''),
                                              (''message'', error_message error)])), w3)
                           | Inr r \<Rightarrow>
                               (Inr (json_response 200 corsHeaders
                                       (chat_envelope t_id t_created model (js_or r response))),
                                w3))))))))"

text \<open>\<^verbatim>\<open>Array.isArray(input) ? input : [input]\<close>\<close>

definition inputs_of :: "jsval \<Rightarrow> jsval list" where
  "inputs_of input = (case input of JArr xs \<Rightarrow> xs | v \<Rightarrow> [v])"

text \<open>
  The loop \<^verbatim>\<open>for (let i = 0; i < inputs.length; i++)\<close> of \<^verbatim>\<open>handleEmbeddings\<close>, with the
  array \<^verbatim>\<open>embeddings\<close> as accumulator. A rejected backend call, or a TypeError from
  \<^verbatim>\<open>response.data\<close>, leaves the loop at once.
\<close>

function embed_loop ::
  "'s env \<Rightarrow> jsval \<Rightarrow> jsval list \<Rightarrow> nat \<Rightarrow> jsval list \<Rightarrow> 's world
     \<Rightarrow> (thrown + jsval list) \<times> 's world" where
  "embed_loop env model inputs i embeddings w =
     (if i < length inputs then
        (case run env model (JObj [(''text'', inputs ! i)]) w of
           (Inl error, w1) \<Rightarrow> (Inl error, w1)
         | (Inr response, w1) \<Rightarrow>
             (case get_prop response ''data'' of
                Inl error \<Rightarrow> (Inl error, w1)
              | Inr d \<Rightarrow>
                  embed_loop env model inputs (i + 1)
                    (embeddings @
                       [JObj [(''object'', JStr ''embedding''),
                              (''embedding'', js_or d response),
                              (''index'', JNum (of_nat i))]])
                    w1))
      else (Inr embeddings, w))"
  by pat_completeness auto
termination
  by (relation "measure (\<lambda>(env, model, inputs, i, embeddings, w). length inputs - i)") auto

definition handleEmbeddings ::
  "request \<Rightarrow> 's env \<Rightarrow> headers \<Rightarrow> 's world \<Rightarrow> (thrown + response) \<times> 's world" where
  "handleEmbeddings request env corsHeaders w =
     (if method request \<noteq> ''POST'' then
        (Inr (json_response 405 corsHeaders (JObj [(''error'', JStr ''Method not allowed'')])), w)
      else case json request of
        Inl e \<Rightarrow> (Inl e, w)
      | Inr body \<Rightarrow>
         (case destructurable body ''input'' of
            Inl e \<Rightarrow> (Inl e, w)
          | Inr u \<Rightarrow>
             (let input = field body ''input'';
                  model = with_default (field body ''model'') (JStr ''@cf/baai/bge-large-en-v1.5'')
              in
                if \<not> truthy input then
                  (Inr (json_response 400 corsHeaders
                          (JObj [(''error'', JStr ''Input is required'')])), w)
                else
                  (let inputs = inputs_of input in
                   case embed_loop env model inputs 0 [] w of
                     (Inl error, w1) \<Rightarrow>
                       (Inr (json_response 500 corsHeaders
                               (JObj [(''error'', JStr ''Failed to generate embeddings''),
                                      (''message'', error_message error)])), w1)
                   | (Inr embeddings, w1) \<Rightarrow>
                       (Inr (json_response 200 corsHeaders
                               (JObj [(''object'', JStr ''list''),
                                      (''data'', JArr embeddings),
                                      (''model'', model),
                                      (''usage'', JObj [(''prompt_tokens'', JNum 0),
                                                        (''total_tokens'', JNum 0)])])),
                        w1)))))"

section \<open>The dispatcher\<close>

definition corsHeaders :: headers where
  "corsHeaders =
     [''Access-Control-Allow-Origin'' \<mapsto> ''*'',
      ''Access-Control-Allow-Methods'' \<mapsto> ''GET, POST, PUT, DELETE, OPTIONS'',
      ''Access-Control-Allow-Headers'' \<mapsto> ''Content-Type, Authorization'']"

definition info_document :: jsval where
  "info_document =
     JObj [(''message'', JStr ''OpenAI-compatible Workers AI API''),
           (''endpoints'', JObj [(''chat'', JStr ''/v1/chat/completions''),
                                 (''embeddings'', JStr ''/v1/embeddings''),
                                 (''models'', JStr ''/v1/models'')]),
           (''documentation'',
              JStr ''https://developers.cloudflare.com/workers-ai/configuration/open-ai-compatibility/'')]"

text \<open>The body of the \<^verbatim>\<open>try\<close> block of \<^verbatim>\<open>fetch\<close>: routing by path.\<close>

definition route :: "request \<Rightarrow> 's env \<Rightarrow> 's world \<Rightarrow> (thrown + response) \<times> 's world" where
  "route request env w =
     (let path = pathname request in
      if path = ''/'' then (Inr (json_response 200 corsHeaders info_document), w)
      else if path = ''/v1/models'' then (Inr (handleModels corsHeaders), w)
      else if path = ''/v1/chat/completions'' then handleChatCompletions request env corsHeaders w
      else if path = ''/v1/embeddings'' then handleEmbeddings request env corsHeaders w
      else (Inr (json_response 404 corsHeaders (JObj [(''error'', JStr ''Not found'')])), w))"

definition fetch :: "request \<Rightarrow> 's env \<Rightarrow> 's world \<Rightarrow> response \<times> 's world" where
  "fetch request env w =
     (if method request = ''OPTIONS'' then
        (\<lparr>status = 200, headers = corsHeaders, resp_body = Null_body\<rparr>, w)
      else case route request env w of
        (Inr resp, w1) \<Rightarrow> (resp, w1)
      | (Inl error, w1) \<Rightarrow>
          (json_response 500 corsHeaders
             (JObj [(''error'', JStr ''Internal server error''),
                    (''message'', error_message error)]), w1))"

section \<open>Reading responses and traces\<close>

text \<open>The value a response body serialises; a \<^verbatim>\<open>null\<close> body has none.\<close>

definition payload :: "response \<Rightarrow> jsval" where
  "payload resp = (case resp_body resp of Null_body \<Rightarrow> JUndefined | JSON_stringify v \<Rightarrow> v)"

text \<open>The status a handler answers with; none when a fault escapes the handler.\<close>

definition status_of :: "(thrown + response) \<times> 's world \<Rightarrow> nat option" where
  "status_of out = (case fst out of Inl e \<Rightarrow> None | Inr resp \<Rightarrow> Some (status resp))"

text \<open>Array element \<^verbatim>\<open>v[i]\<close>, \<^verbatim>\<open>undefined\<close> out of range.\<close>

definition elem :: "jsval \<Rightarrow> nat \<Rightarrow> jsval" where
  "elem v i = (case v of JArr xs \<Rightarrow> (if i < length xs then xs ! i else JUndefined) | x \<Rightarrow> JUndefined)"

text \<open>\<^verbatim>\<open>choices[0].message.content\<close> and \<^verbatim>\<open>choices[0].finish_reason\<close> of a chat response.\<close>

definition choice_content :: "response \<Rightarrow> jsval" where
  "choice_content resp = field (field (elem (field (payload resp) ''choices'') 0) ''message'') ''content''"

definition finish_reason :: "response \<Rightarrow> jsval" where
  "finish_reason resp = field (elem (field (payload resp) ''choices'') 0) ''finish_reason''"

definition usage :: "response \<Rightarrow> string \<Rightarrow> jsval" where
  "usage resp k = field (field (payload resp) ''usage'') k"

text \<open>Whether a value is an object with an own property of the given name.\<close>

fun exposes :: "jsval \<Rightarrow> string \<Rightarrow> bool" where
  "exposes (JObj kvs) k = (k \<in> fst ` set kvs)"
| "exposes v k = False"

text \<open>The three CORS headers of a response.\<close>

definition carries_cors :: "response \<Rightarrow> bool" where
  "carries_cors resp \<longleftrightarrow>
     headers resp ''Access-Control-Allow-Origin'' = Some ''*'' \<and>
     headers resp ''Access-Control-Allow-Methods'' = Some ''GET, POST, PUT, DELETE, OPTIONS'' \<and>
     headers resp ''Access-Control-Allow-Headers'' = Some ''Content-Type, Authorization''"

text \<open>The backend calls made between two worlds: the part of the later trace that is new.\<close>

definition new_calls :: "'s world \<Rightarrow> 's world \<Rightarrow> call list" where
  "new_calls w w' = drop (length (trace w)) (trace w')"

definition failed :: "call \<Rightarrow> bool" where
  "failed c = (case call_outcome c of Inl e \<Rightarrow> True | Inr v \<Rightarrow> False)"

section \<open>Concrete requests and backends\<close>

text \<open>
  Inputs on which the theorems below are exercised: a request with a given method, path
  and parsed body; a backend that resolves every call to one value; a backend that counts
  its calls and rejects the call numbered \<open>k\<close> (from 0); a clock that stands still.
\<close>

definition req :: "string \<Rightarrow> string \<Rightarrow> jsval \<Rightarrow> request" where
  "req m p b = \<lparr>method = m, pathname = p, json = Inr b\<rparr>"

definition bad_json_req :: "string \<Rightarrow> request" where
  "bad_json_req p =
     \<lparr>method = ''POST'', pathname = p, json = Inl (Error ''Unexpected token'')\<rparr>"

definition resolving :: "jsval \<Rightarrow> nat env" where
  "resolving v =
     \<lparr>AI_run = (\<lambda>model params n. (Inr v, Suc n)), Date_now = (\<lambda>n. (1700000000000, n))\<rparr>"

definition rejecting_at :: "nat \<Rightarrow> jsval \<Rightarrow> nat env" where
  "rejecting_at k v =
     \<lparr>AI_run = (\<lambda>model params n.
                  (if n = k then Inl (Error ''backend down'') else Inr v, Suc n)),
      Date_now = (\<lambda>n. (1700000000000, n))\<rparr>"

definition w0 :: "nat world" where
  "w0 = \<lparr>ext = 0, trace = []\<rparr>"

definition hello :: jsval where
  "hello = JArr [JObj [(''role'', JStr ''user''), (''content'', JStr ''Hello!'')]]"

section \<open>Basic facts\<close>

declare show_nat.simps [simp del]
declare embed_loop.simps [simp del]

lemma run_trace:
  "run env model params w = (out, w') \<Longrightarrow>
     trace w' = trace w @ [\<lparr>call_model = model, call_params = params, call_outcome = out\<rparr>]"
  by (auto simp: run_def split: prod.splits)

lemma now_trace: "now env w = (t, w') \<Longrightarrow> trace w' = trace w"
  by (auto simp: now_def split: prod.splits)

lemma new_calls_same [simp]: "new_calls w w = []"
  by (simp add: new_calls_def)

lemma field_destructurable:
  "field body k \<noteq> JUndefined \<Longrightarrow> destructurable body k' = Inr ()"
  by (cases body) (auto simp: field_def)

lemma not_null_destructurable:
  "body \<noteq> JNull \<Longrightarrow> body \<noteq> JUndefined \<Longrightarrow> destructurable body k = Inr ()"
  by (cases body) auto

text \<open>
  What one run of the loop adds to the trace and to the accumulator: a rejected call is
  the value the loop leaves with, and a loop that runs to its end has called the backend
  once for each remaining input and appended one entry for each.
\<close>

lemma embed_loop_trace:
  "embed_loop env model inputs i embeddings w = (r, w') \<Longrightarrow>
     \<exists>cs. trace w' = trace w @ cs \<and> (\<forall>c\<in>set cs. \<forall>e. call_outcome c = Inl e \<longrightarrow> r = Inl e)
        \<and> (\<forall>es. r = Inr es \<longrightarrow> length cs = length inputs - i)"
proof (induction env model inputs i embeddings w rule: embed_loop.induct)
  case (1 env model inputs i embeddings w)
  show ?case
  proof (cases "i < length inputs")
    case False
    with "1.prems" show ?thesis
      by (simp add: embed_loop.simps)
  next
    case True
    obtain out w1 where r: "run env model (JObj [(''text'', inputs ! i)]) w = (out, w1)"
      by (cases "run env model (JObj [(''text'', inputs ! i)]) w")
    note t1 = run_trace [OF r]
    show ?thesis
    proof (cases out)
      case (Inl error)
      with "1.prems" True r have "r = Inl error" "w' = w1"
        by (simp_all add: embed_loop.simps)
      with t1 Inl show ?thesis by simp
    next
      case (Inr response)
      show ?thesis
      proof (cases "get_prop response ''data''")
        case (Inl error)
        with "1.prems" True r Inr have "r = Inl error" "w' = w1"
          by (simp_all add: embed_loop.simps)
        with t1 Inr show ?thesis by simp
      next
        case d: (Inr d)
        let ?acc = "embeddings @
                       [JObj [(''object'', JStr ''embedding''),
                              (''embedding'', js_or d response),
                              (''index'', JNum (of_nat i))]]"
        from "1.prems" True r Inr d
        have step: "embed_loop env model inputs (i + 1) ?acc w1 = (r, w')"
          by (simp add: embed_loop.simps)
        from "1.IH" [OF True r [symmetric] Inr d step]
        obtain cs where cs: "trace w' = trace w1 @ cs"
          "\<forall>c\<in>set cs. \<forall>e. call_outcome c = Inl e \<longrightarrow> r = Inl e"
          "\<forall>es. r = Inr es \<longrightarrow> length cs = length inputs - (i + 1)"
          by blast
        from cs t1 Inr True show ?thesis
          by auto
      qed
    qed
  qed
qed

lemma embed_loop_result:
  "embed_loop env model inputs i embeddings w = (Inr es, w') \<Longrightarrow>
     \<exists>new. es = embeddings @ new \<and> length new = length inputs - i
        \<and> (\<forall>j<length new. field (new ! j) ''index'' = JNum (of_nat (i + j)))"
proof (induction env model inputs i embeddings w rule: embed_loop.induct)
  case (1 env model inputs i embeddings w)
  show ?case
  proof (cases "i < length inputs")
    case False
    with "1.prems" show ?thesis
      by (simp add: embed_loop.simps)
  next
    case True
    obtain out w1 where r: "run env model (JObj [(''text'', inputs ! i)]) w = (out, w1)"
      by (cases "run env model (JObj [(''text'', inputs ! i)]) w")
    from "1.prems" True r obtain response where out: "out = Inr response"
      by (cases out) (simp_all add: embed_loop.simps)
    from "1.prems" True r out obtain d where d: "get_prop response ''data'' = Inr d"
      by (cases "get_prop response ''data''") (simp_all add: embed_loop.simps)
    let ?entry = "JObj [(''object'', JStr ''embedding''),
                        (''embedding'', js_or d response),
                        (''index'', JNum (of_nat i))]"
    from "1.prems" True r out d
    have step: "embed_loop env model inputs (i + 1) (embeddings @ [?entry]) w1 = (Inr es, w')"
      by (simp add: embed_loop.simps)
    from "1.IH" [OF True r [symmetric] out d step]
    obtain new where new: "es = (embeddings @ [?entry]) @ new"
      "length new = length inputs - (i + 1)"
      "\<forall>j<length new. field (new ! j) ''index'' = JNum (of_nat (i + 1 + j))"
      by blast
    have idx: "field ((?entry # new) ! j) ''index'' = JNum (of_nat (i + j))"
      if "j < length (?entry # new)" for j
    proof (cases j)
      case 0
      then show ?thesis by (simp add: field_def)
    next
      case (Suc k)
      with that new(3) show ?thesis by simp
    qed
    from new True have "es = embeddings @ (?entry # new)"
      "length (?entry # new) = length inputs - i"
      by simp_all
    with idx show ?thesis by blast
  qed
qed

text \<open>The method check of the two handlers.\<close>

lemma chat_not_post:
  "method request \<noteq> ''POST'' \<Longrightarrow>
     handleChatCompletions request env ch w =
       (Inr (json_response 405 ch (JObj [(''error'', JStr ''Method not allowed'')])), w)"
  by (simp add: handleChatCompletions_def)

lemma embeddings_not_post:
  "method request \<noteq> ''POST'' \<Longrightarrow>
     handleEmbeddings request env ch w =
       (Inr (json_response 405 ch (JObj [(''error'', JStr ''Method not allowed'')])), w)"
  by (simp add: handleEmbeddings_def)

text \<open>Every response of a handler has the JSON content type and the headers it was given.\<close>

lemma chat_headers:
  "handleChatCompletions request env ch w = (Inr resp, w') \<Longrightarrow>
     headers resp = [''Content-Type'' \<mapsto> ''application/json''] ++ ch"
  by (auto simp: handleChatCompletions_def Let_def json_response_def
           split: if_splits sum.splits prod.splits)

lemma embeddings_headers:
  "handleEmbeddings request env ch w = (Inr resp, w') \<Longrightarrow>
     headers resp = [''Content-Type'' \<mapsto> ''application/json''] ++ ch"
  by (auto simp: handleEmbeddings_def Let_def json_response_def
           split: if_splits sum.splits prod.splits)

lemma cors_after_content_type:
  "headers resp = [''Content-Type'' \<mapsto> ''application/json''] ++ corsHeaders \<Longrightarrow> carries_cors resp"
  by (simp add: carries_cors_def corsHeaders_def map_add_def)

lemma route_headers:
  "route request env w = (Inr resp, w') \<Longrightarrow>
     headers resp = [''Content-Type'' \<mapsto> ''application/json''] ++ corsHeaders"
  by (auto simp: route_def Let_def handleModels_def json_response_def
           dest: chat_headers embeddings_headers split: if_splits)

text \<open>When the loop leaves with a thrown value, some call was rejected or resolved to nothing.\<close>

lemma get_prop_throws: "get_prop v k = Inl e \<Longrightarrow> v = JNull \<or> v = JUndefined"
  by (cases v) auto

lemma embed_loop_abort:
  "embed_loop env model inputs i embeddings w = (Inl e, w') \<Longrightarrow>
     \<exists>c\<in>set (new_calls w w').
        failed c \<or> call_outcome c = Inr JNull \<or> call_outcome c = Inr JUndefined"
proof (induction env model inputs i embeddings w rule: embed_loop.induct)
  case (1 env model inputs i embeddings w)
  show ?case
  proof (cases "i < length inputs")
    case False
    with "1.prems" show ?thesis
      by (simp add: embed_loop.simps)
  next
    case True
    obtain out w1 where r: "run env model (JObj [(''text'', inputs ! i)]) w = (out, w1)"
      by (cases "run env model (JObj [(''text'', inputs ! i)]) w")
    note t1 = run_trace [OF r]
    show ?thesis
    proof (cases out)
      case (Inl error)
      with "1.prems" True r have "w' = w1"
        by (simp add: embed_loop.simps)
      with t1 Inl show ?thesis
        by (simp add: new_calls_def failed_def)
    next
      case (Inr response)
      show ?thesis
      proof (cases "get_prop response ''data''")
        case (Inl error)
        with "1.prems" True r Inr have "w' = w1"
          by (simp add: embed_loop.simps)
        with t1 Inr get_prop_throws [OF Inl] show ?thesis
          by (auto simp: new_calls_def)
      next
        case d: (Inr d)
        from "1.prems" True r Inr d
        have step: "embed_loop env model inputs (i + 1)
                      (embeddings @
                         [JObj [(''object'', JStr ''embedding''),
                                (''embedding'', js_or d response),
                                (''index'', JNum (of_nat i))]]) w1 = (Inl e, w')"
          by (simp add: embed_loop.simps)
        from "1.IH" [OF True r [symmetric] Inr d step]
        obtain c where c: "c \<in> set (new_calls w1 w')"
          "failed c \<or> call_outcome c = Inr JNull \<or> call_outcome c = Inr JUndefined"
          by blast
        from embed_loop_trace [OF step] obtain cs where "trace w' = trace w1 @ cs"
          by blast
        with t1 c(1) have "c \<in> set (new_calls w w')"
          by (simp add: new_calls_def)
        with c(2) show ?thesis by blast
      qed
    qed
  qed
qed

text \<open>The shape of every successful chat response.\<close>

lemma chat_envelope_shape:
  "choice_content (json_response st ch (chat_envelope t1 t2 model content)) = content \<and>
   finish_reason (json_response st ch (chat_envelope t1 t2 model content)) = JStr ''stop'' \<and>
   usage (json_response st ch (chat_envelope t1 t2 model content)) ''prompt_tokens'' = JNum 0 \<and>
   usage (json_response st ch (chat_envelope t1 t2 model content)) ''completion_tokens'' = JNum 0 \<and>
   usage (json_response st ch (chat_envelope t1 t2 model content)) ''total_tokens'' = JNum 0"
  by (simp add: json_response_def chat_envelope_def choice_content_def finish_reason_def
        usage_def payload_def field_def elem_def)

lemma chat_success_shape:
  assumes h: "handleChatCompletions request env ch w = (Inr resp, w')" and st: "status resp = 200"
  shows "\<exists>body c result.
           method request = ''POST'' \<and> json request = Inr body \<and>
           Array_isArray (field body ''messages'') \<and>
           new_calls w w' = [c] \<and> call_outcome c = Inr result \<and>
           choice_content resp = js_or (field result ''response'') result \<and>
           finish_reason resp = JStr ''stop'' \<and>
           usage resp ''prompt_tokens'' = JNum 0 \<and>
           usage resp ''completion_tokens'' = JNum 0 \<and>
           usage resp ''total_tokens'' = JNum 0"
proof -
  have post: "method request = ''POST''"
  proof (rule ccontr)
    assume "method request \<noteq> ''POST''"
    with h st show False
      by (auto simp: chat_not_post json_response_def)
  qed
  from h post obtain body where body: "json request = Inr body"
    by (cases "json request") (simp_all add: handleChatCompletions_def)
  from h post body have ds: "destructurable body ''messages'' = Inr ()"
    by (cases "destructurable body ''messages''") (simp_all add: handleChatCompletions_def)
  let ?messages = "field body ''messages''"
  let ?model = "with_default (field body ''model'') (JStr ''@cf/meta/llama-3.3-70b-instruct-fp8-fast'')"
  let ?params = "JObj ([(''messages'', ?messages),
                        (''stream'', with_default (field body ''stream'') (JBool False))] @
                       rest_props [''messages'', ''model'', ''stream''] body)"
  have arr: "truthy ?messages \<and> Array_isArray ?messages"
  proof (rule ccontr)
    assume "\<not> (truthy ?messages \<and> Array_isArray ?messages)"
    with post body ds have "handleChatCompletions request env ch w =
        (Inr (json_response 400 ch (JObj [(''error'', JStr ''Messages array is required'')])), w)"
      by (simp add: handleChatCompletions_def Let_def)
    with h st show False by (auto simp: json_response_def)
  qed
  obtain out w1 where r: "run env ?model ?params w = (out, w1)"
    by (cases "run env ?model ?params w")
  obtain t1 w2 where n1: "now env w1 = (t1, w2)"
    by (cases "now env w1")
  obtain t2 w3 where n2: "now env w2 = (t2, w3)"
    by (cases "now env w2")
  from post body ds arr r n1 n2 have unfolded: "handleChatCompletions request env ch w =
      (case out of
         Inl error \<Rightarrow>
           (Inr (json_response 500 ch
                   (JObj [(''error'', JStr ''Failed to generate completion''),
                          (''message'', error_message error)])), w1)
       | Inr response \<Rightarrow>
           (case get_prop response ''response'' of
              Inl error \<Rightarrow>
                (Inr (json_response 500 ch
                        (JObj [(''error'', JStr ''Failed to generate completion''),
                               (''message'', error_message error)])), w3)
            | Inr x \<Rightarrow>
                (Inr (json_response 200 ch (chat_envelope t1 t2 ?model (js_or x response))), w3)))"
    by (simp add: handleChatCompletions_def Let_def split: sum.splits)
  from h st unfolded obtain result where out: "out = Inr result"
    by (cases out) (auto simp: json_response_def)
  from h st unfolded out obtain x where x: "get_prop result ''response'' = Inr x"
    by (cases "get_prop result ''response''") (auto simp: json_response_def)
  from h unfolded out x
  have resp: "resp = json_response 200 ch (chat_envelope t1 t2 ?model (js_or x result))"
    and w': "w' = w3"
    by simp_all
  from x have fx: "field result ''response'' = x"
    by (simp add: field_def)
  from run_trace [OF r] now_trace [OF n1] now_trace [OF n2] w'
  have "new_calls w w' = [\<lparr>call_model = ?model, call_params = ?params, call_outcome = out\<rparr>]"
    by (simp add: new_calls_def)
  with post body arr out resp fx chat_envelope_shape [of 200 ch t1 t2 ?model "js_or x result"]
  show ?thesis
    by auto
qed

text \<open>
  The calls the loop makes: the call numbered \<open>j\<close> asks for the input at position
  \<open>i + j\<close>, with the model of the request. The normaliser on arrays and on scalars.
\<close>

lemma embed_loop_calls:
  "embed_loop env model inputs i embeddings w = (r, w') \<Longrightarrow>
     \<forall>j<length (new_calls w w').
        call_model (new_calls w w' ! j) = model \<and>
        call_params (new_calls w w' ! j) = JObj [(''text'', inputs ! (i + j))]"
proof (induction env model inputs i embeddings w rule: embed_loop.induct)
  case (1 env model inputs i embeddings w)
  show ?case
  proof (cases "i < length inputs")
    case False
    with "1.prems" show ?thesis
      by (simp add: embed_loop.simps)
  next
    case True
    obtain out w1 where r: "run env model (JObj [(''text'', inputs ! i)]) w = (out, w1)"
      by (cases "run env model (JObj [(''text'', inputs ! i)]) w")
    note t1 = run_trace [OF r]
    let ?c = "\<lparr>call_model = model, call_params = JObj [(''text'', inputs ! i)], call_outcome = out\<rparr>"
    show ?thesis
    proof (cases out)
      case (Inl error)
      with "1.prems" True r have "w' = w1"
        by (simp add: embed_loop.simps)
      with t1 show ?thesis
        by (simp add: new_calls_def)
    next
      case (Inr response)
      show ?thesis
      proof (cases "get_prop response ''data''")
        case (Inl error)
        with "1.prems" True r Inr have "w' = w1"
          by (simp add: embed_loop.simps)
        with t1 show ?thesis
          by (simp add: new_calls_def)
      next
        case d: (Inr d)
        from "1.prems" True r Inr d
        have step: "embed_loop env model inputs (i + 1)
                      (embeddings @
                         [JObj [(''object'', JStr ''embedding''),
                                (''embedding'', js_or d response),
                                (''index'', JNum (of_nat i))]]) w1 = (r, w')"
          by (simp add: embed_loop.simps)
        note ih = "1.IH" [OF True r [symmetric] Inr d step]
        from embed_loop_trace [OF step] obtain cs where cs: "trace w' = trace w1 @ cs"
          by blast
        with t1 have n: "new_calls w w' = ?c # cs" "new_calls w1 w' = cs"
          by (simp_all add: new_calls_def)
        show ?thesis
        proof (intro allI impI)
          fix j assume j: "j < length (new_calls w w')"
          show "call_model (new_calls w w' ! j) = model \<and>
                call_params (new_calls w w' ! j) = JObj [(''text'', inputs ! (i + j))]"
          proof (cases j)
            case 0
            with n show ?thesis by simp
          next
            case (Suc k)
            with j n ih show ?thesis by simp
          qed
        qed
      qed
    qed
  qed
qed

lemma inputs_of_array: "inputs_of (JArr xs) = xs"
  by (simp add: inputs_of_def)

lemma inputs_of_scalar: "\<not> Array_isArray v \<Longrightarrow> inputs_of v = [v]"
  by (cases v) (simp_all add: inputs_of_def)

section \<open>The claims\<close>

subsection \<open>C1: the content of a chat response\<close>

text \<open>
  Claim C1 says that the content of a successful chat response is the \<^verbatim>\<open>response\<close> field
  of the backend result whenever the result is an object exposing that field, and the raw
  result otherwise. The handler computes \<^verbatim>\<open>response.response || response\<close>, so a field
  that is present but falsy is passed over. For the backend result \<^verbatim>\<open>{response: ""}\<close> the
  handler answers 200 and the content is the whole result object, not the empty string
  the result exposes. (The finish reason and the zero usage counts are as claimed, by the
  lemma on the shape of every successful chat response above.)
\<close>

theorem falsy_response_field_is_dropped:
  "exposes (JObj [(''response'', JStr [])]) ''response'' \<and>
   field (JObj [(''response'', JStr [])]) ''response'' = JStr [] \<and>
   status_of (handleChatCompletions (req ''POST'' ''/v1/chat/completions'' (JObj [(''messages'', hello)]))
                (resolving (JObj [(''response'', JStr [])])) corsHeaders w0) = Some 200 \<and>
   choice_content (fst (fetch (req ''POST'' ''/v1/chat/completions'' (JObj [(''messages'', hello)]))
                (resolving (JObj [(''response'', JStr [])])) w0)) = JObj [(''response'', JStr [])]"
  by (simp add: req_def field_def status_of_def handleChatCompletions_def Let_def hello_def
        with_default_def rest_props_def run_def now_def resolving_def w0_def js_or_def
        json_response_def chat_envelope_def choice_content_def payload_def elem_def
        fetch_def route_def)

text \<open>
  At this input the content differs from the \<^verbatim>\<open>response\<close> field that the result exposes.
\<close>

theorem falsy_response_field_is_dropped_witness:
  "choice_content (fst (fetch (req ''POST'' ''/v1/chat/completions'' (JObj [(''messages'', hello)]))
                (resolving (JObj [(''response'', JStr [])])) w0))
     \<noteq> field (JObj [(''response'', JStr [])]) ''response''"
  using falsy_response_field_is_dropped by simp

subsection \<open>C2: one entry for each input, indexed by position\<close>

text \<open>
  Claim C2: whenever a POST embedding request is answered with a success response, its
  \<^verbatim>\<open>input\<close> has passed validation, the \<^verbatim>\<open>data\<close> array is as long as the normalised input
  sequence, the entry at position \<open>i\<close> has index \<open>i\<close>, and a scalar input gives exactly
  one entry. In particular an array input of \<open>n\<close> elements gives \<open>n\<close> entries, and the
  backend has been called once for each element, in input order, with that element as
  \<^verbatim>\<open>text\<close>. A request whose input passes validation does succeed whenever every backend
  call resolves to a value other than \<^verbatim>\<open>null\<close> and \<^verbatim>\<open>undefined\<close>.
\<close>

theorem embeddings_data_matches_inputs:
  assumes "method request = ''POST''" and "json request = Inr body"
  shows "\<exists>r w'. handleEmbeddings request env ch w = (r, w') \<and>
     (truthy (field body ''input'') \<and>
      (\<forall>c\<in>set (new_calls w w'). \<exists>v. call_outcome c = Inr v \<and> v \<noteq> JNull \<and> v \<noteq> JUndefined)
        \<longrightarrow> status_of (r, w') = Some 200) \<and>
     (\<forall>resp. r = Inr resp \<and> status resp = 200 \<longrightarrow>
        truthy (field body ''input'') \<and>
        (\<exists>es. field (payload resp) ''data'' = JArr es \<and>
           length es = length (inputs_of (field body ''input'')) \<and>
           (\<forall>xs. field body ''input'' = JArr xs \<longrightarrow> length es = length xs) \<and>
           (\<forall>i<length es. field (es ! i) ''index'' = JNum (of_nat i)) \<and>
           (\<not> Array_isArray (field body ''input'') \<longrightarrow> length es = 1) \<and>
           length (new_calls w w') = length es \<and>
           (\<forall>xs. field body ''input'' = JArr xs \<longrightarrow>
              (\<forall>i<length xs. call_params (new_calls w w' ! i) = JObj [(''text'', xs ! i)])) \<and>
           (\<not> Array_isArray (field body ''input'') \<longrightarrow>
              call_params (new_calls w w' ! 0) = JObj [(''text'', field body ''input'')])))"
proof (cases "truthy (field body ''input'')")
  case False
  show ?thesis
  proof (cases "destructurable body ''input''")
    case (Inl e)
    with assms show ?thesis
      by (simp add: handleEmbeddings_def False)
  next
    case (Inr u)
    with assms False show ?thesis
      by (simp add: handleEmbeddings_def Let_def json_response_def)
  qed
next
  case True
  let ?input = "field body ''input''"
  let ?model = "with_default (field body ''model'') (JStr ''@cf/baai/bge-large-en-v1.5'')"
  from True have "?input \<noteq> JUndefined" by auto
  then have ds: "destructurable body ''input'' = Inr ()"
    by (rule field_destructurable)
  obtain l w1 where l: "embed_loop env ?model (inputs_of ?input) 0 [] w = (l, w1)"
    by (cases "embed_loop env ?model (inputs_of ?input) 0 [] w")
  show ?thesis
  proof (cases l)
    case (Inl error)
    with assms True ds l have h: "handleEmbeddings request env ch w =
        (Inr (json_response 500 ch
                (JObj [(''error'', JStr ''Failed to generate embeddings''),
                       (''message'', error_message error)])), w1)"
      by (simp add: handleEmbeddings_def Let_def)
    from embed_loop_abort l Inl
    have "\<exists>c\<in>set (new_calls w w1).
        failed c \<or> call_outcome c = Inr JNull \<or> call_outcome c = Inr JUndefined"
      by blast
    then have "\<not> (\<forall>c\<in>set (new_calls w w1). \<exists>v. call_outcome c = Inr v \<and> v \<noteq> JNull \<and> v \<noteq> JUndefined)"
      by (fastforce simp: failed_def split: sum.splits)
    with h show ?thesis
      by (simp add: json_response_def) blast
  next
    case (Inr embeddings)
    with assms True ds l have h: "handleEmbeddings request env ch w =
        (Inr (json_response 200 ch
                (JObj [(''object'', JStr ''list''),
                       (''data'', JArr embeddings),
                       (''model'', ?model),
                       (''usage'', JObj [(''prompt_tokens'', JNum 0),
                                         (''total_tokens'', JNum 0)])])), w1)"
      by (simp add: handleEmbeddings_def Let_def)
    from embed_loop_result l Inr
    have len: "length embeddings = length (inputs_of ?input)"
      and idx: "\<forall>j<length embeddings. field (embeddings ! j) ''index'' = JNum (of_nat j)"
      by fastforce+
    from embed_loop_trace [OF l] Inr obtain cs where "trace w1 = trace w @ cs"
      "length cs = length (inputs_of ?input)"
      by auto
    then have calls: "length (new_calls w w1) = length (inputs_of ?input)"
      by (simp add: new_calls_def)
    from embed_loop_calls [OF l] calls
    have params: "\<forall>j<length (inputs_of ?input).
        call_params (new_calls w w1 ! j) = JObj [(''text'', inputs_of ?input ! j)]"
      by simp
    have array: "length embeddings = length xs \<and>
        (\<forall>i<length xs. call_params (new_calls w w1 ! i) = JObj [(''text'', xs ! i)])"
      if "?input = JArr xs" for xs
      using that len params by (simp add: inputs_of_array)
    have scalar: "length embeddings = 1 \<and>
        call_params (new_calls w w1 ! 0) = JObj [(''text'', ?input)]"
      if "\<not> Array_isArray ?input"
      using inputs_of_scalar [OF that] len params by simp
    let ?resp = "json_response 200 ch
                (JObj [(''object'', JStr ''list''),
                       (''data'', JArr embeddings),
                       (''model'', ?model),
                       (''usage'', JObj [(''prompt_tokens'', JNum 0),
                                         (''total_tokens'', JNum 0)])])"
    have data: "field (payload ?resp) ''data'' = JArr embeddings" "status ?resp = 200"
      by (simp_all add: json_response_def payload_def field_def)
    have "status_of (Inr ?resp, w1) = Some 200"
      by (simp add: status_of_def data)
    moreover have "\<forall>resp. Inr ?resp = (Inr resp :: thrown + response) \<and> status resp = 200 \<longrightarrow>
        truthy ?input \<and>
        (\<exists>es. field (payload resp) ''data'' = JArr es \<and>
           length es = length (inputs_of ?input) \<and>
           (\<forall>xs. ?input = JArr xs \<longrightarrow> length es = length xs) \<and>
           (\<forall>i<length es. field (es ! i) ''index'' = JNum (of_nat i)) \<and>
           (\<not> Array_isArray ?input \<longrightarrow> length es = 1) \<and>
           length (new_calls w w1) = length es \<and>
           (\<forall>xs. ?input = JArr xs \<longrightarrow>
              (\<forall>i<length xs. call_params (new_calls w w1 ! i) = JObj [(''text'', xs ! i)])) \<and>
           (\<not> Array_isArray ?input \<longrightarrow>
              call_params (new_calls w w1 ! 0) = JObj [(''text'', ?input)]))"
    proof (intro allI impI)
      fix resp assume "Inr ?resp = (Inr resp :: thrown + response) \<and> status resp = 200"
      then have resp: "resp = ?resp" by simp
      show "truthy ?input \<and>
        (\<exists>es. field (payload resp) ''data'' = JArr es \<and>
           length es = length (inputs_of ?input) \<and>
           (\<forall>xs. ?input = JArr xs \<longrightarrow> length es = length xs) \<and>
           (\<forall>i<length es. field (es ! i) ''index'' = JNum (of_nat i)) \<and>
           (\<not> Array_isArray ?input \<longrightarrow> length es = 1) \<and>
           length (new_calls w w1) = length es \<and>
           (\<forall>xs. ?input = JArr xs \<longrightarrow>
              (\<forall>i<length xs. call_params (new_calls w w1 ! i) = JObj [(''text'', xs ! i)])) \<and>
           (\<not> Array_isArray ?input \<longrightarrow>
              call_params (new_calls w w1 ! 0) = JObj [(''text'', ?input)]))"
        unfolding resp data(1)
        using True len idx calls array scalar by auto
    qed
    ultimately show ?thesis
      unfolding h by blast
  qed
qed

text \<open>
  The scalar input \<^verbatim>\<open>"Hello world"\<close>: one backend call, one entry, index 0. The batch
  \<^verbatim>\<open>["a", "b", "c"]\<close>: three backend calls in input order, three entries, indices 0, 1, 2.
\<close>

theorem embeddings_data_matches_inputs_witness:
  "method (req ''POST'' ''/v1/embeddings'' (JObj [(''input'', JStr ''Hello world'')])) = ''POST'' \<and>
   json (req ''POST'' ''/v1/embeddings'' (JObj [(''input'', JStr ''Hello world'')])) =
     Inr (JObj [(''input'', JStr ''Hello world'')]) \<and>
   truthy (field (JObj [(''input'', JStr ''Hello world'')]) ''input'') \<and>
   \<not> Array_isArray (field (JObj [(''input'', JStr ''Hello world'')]) ''input'') \<and>
   handleEmbeddings (req ''POST'' ''/v1/embeddings'' (JObj [(''input'', JStr ''Hello world'')]))
       (resolving (JObj [(''data'', JArr [JArr [JNum 1, JNum 2]])])) corsHeaders w0 =
     (Inr (json_response 200 corsHeaders
             (JObj [(''object'', JStr ''list''),
                    (''data'', JArr [JObj [(''object'', JStr ''embedding''),
                                           (''embedding'', JArr [JArr [JNum 1, JNum 2]]),
                                           (''index'', JNum 0)]]),
                    (''model'', JStr ''@cf/baai/bge-large-en-v1.5''),
                    (''usage'', JObj [(''prompt_tokens'', JNum 0), (''total_tokens'', JNum 0)])])),
      \<lparr>ext = 1,
         trace = [\<lparr>call_model = JStr ''@cf/baai/bge-large-en-v1.5'',
                   call_params = JObj [(''text'', JStr ''Hello world'')],
                   call_outcome = Inr (JObj [(''data'', JArr [JArr [JNum 1, JNum 2]])])\<rparr>]\<rparr>) \<and>
   method (req ''POST'' ''/v1/embeddings'' (JObj [(''input'', JArr [JStr ''a'', JStr ''b'', JStr ''c''])])) = ''POST'' \<and>
   json (req ''POST'' ''/v1/embeddings'' (JObj [(''input'', JArr [JStr ''a'', JStr ''b'', JStr ''c''])])) =
     Inr (JObj [(''input'', JArr [JStr ''a'', JStr ''b'', JStr ''c''])]) \<and>
   field (JObj [(''input'', JArr [JStr ''a'', JStr ''b'', JStr ''c''])]) ''input'' =
     JArr [JStr ''a'', JStr ''b'', JStr ''c''] \<and>
   handleEmbeddings (req ''POST'' ''/v1/embeddings'' (JObj [(''input'', JArr [JStr ''a'', JStr ''b'', JStr ''c''])]))
       (resolving (JObj [(''data'', JArr [JNum 1])])) corsHeaders w0 =
     (Inr (json_response 200 corsHeaders
             (JObj [(''object'', JStr ''list''),
                    (''data'', JArr [JObj [(''object'', JStr ''embedding''),
                                           (''embedding'', JArr [JNum 1]), (''index'', JNum 0)],
                                     JObj [(''object'', JStr ''embedding''),
                                           (''embedding'', JArr [JNum 1]), (''index'', JNum 1)],
                                     JObj [(''object'', JStr ''embedding''),
                                           (''embedding'', JArr [JNum 1]), (''index'', JNum 2)]]),
                    (''model'', JStr ''@cf/baai/bge-large-en-v1.5''),
                    (''usage'', JObj [(''prompt_tokens'', JNum 0), (''total_tokens'', JNum 0)])])),
      \<lparr>ext = 3,
         trace = [\<lparr>call_model = JStr ''@cf/baai/bge-large-en-v1.5'',
                   call_params = JObj [(''text'', JStr ''a'')],
                   call_outcome = Inr (JObj [(''data'', JArr [JNum 1])])\<rparr>,
                  \<lparr>call_model = JStr ''@cf/baai/bge-large-en-v1.5'',
                   call_params = JObj [(''text'', JStr ''b'')],
                   call_outcome = Inr (JObj [(''data'', JArr [JNum 1])])\<rparr>,
                  \<lparr>call_model = JStr ''@cf/baai/bge-large-en-v1.5'',
                   call_params = JObj [(''text'', JStr ''c'')],
                   call_outcome = Inr (JObj [(''data'', JArr [JNum 1])])\<rparr>]\<rparr>)"
  using embeddings_data_matches_inputs
    [of "req ''POST'' ''/v1/embeddings'' (JObj [(''input'', JStr ''Hello world'')])"
        "JObj [(''input'', JStr ''Hello world'')]"
        "resolving (JObj [(''data'', JArr [JArr [JNum 1, JNum 2]])])" corsHeaders w0]
    embeddings_data_matches_inputs
    [of "req ''POST'' ''/v1/embeddings'' (JObj [(''input'', JArr [JStr ''a'', JStr ''b'', JStr ''c''])])"
        "JObj [(''input'', JArr [JStr ''a'', JStr ''b'', JStr ''c''])]"
        "resolving (JObj [(''data'', JArr [JNum 1])])" corsHeaders w0]
  by (simp add: req_def field_def handleEmbeddings_def Let_def with_default_def inputs_of_def
        embed_loop.simps run_def resolving_def w0_def js_or_def)

subsection \<open>C3: validation of the embedding input\<close>

text \<open>
  Claim C3 says that an \<^verbatim>\<open>input\<close> that is absent, null or empty, an empty sequence
  included, is answered with 400. The check is \<^verbatim>\<open>!input\<close>, and an array is truthy even
  when it is empty: the request \<^verbatim>\<open>{"input": []}\<close> is answered with 200.
\<close>

theorem empty_input_array_not_rejected:
  "method (req ''POST'' ''/v1/embeddings'' (JObj [(''input'', JArr [])])) = ''POST'' \<and>
   json (req ''POST'' ''/v1/embeddings'' (JObj [(''input'', JArr [])])) = Inr (JObj [(''input'', JArr [])]) \<and>
   field (JObj [(''input'', JArr [])]) ''input'' = JArr [] \<and>
   status_of (handleEmbeddings (req ''POST'' ''/v1/embeddings'' (JObj [(''input'', JArr [])]))
                (resolving JNull) corsHeaders w0) \<noteq> Some 400 \<and>
   status (fst (fetch (req ''POST'' ''/v1/embeddings'' (JObj [(''input'', JArr [])]))
                (resolving JNull) w0)) = 200"
  by (simp add: req_def field_def status_of_def handleEmbeddings_def Let_def inputs_of_def
        embed_loop.simps json_response_def fetch_def route_def)

text \<open>
  Claim C3, amended: for every POST embedding request whose body parses to a JSON value
  other than \<^verbatim>\<open>null\<close> and whose \<^verbatim>\<open>input\<close> is absent, null, the empty string or another
  falsy value, the handler answers 400 and does not invoke the backend. (An empty array is
  truthy and is not rejected.)
\<close>

theorem falsy_input_is_400:
  assumes "method request = ''POST''" and "json request = Inr body"
    and "body \<noteq> JNull" and "body \<noteq> JUndefined"
    and "\<not> truthy (field body ''input'')"
  shows "handleEmbeddings request env ch w =
           (Inr (json_response 400 ch (JObj [(''error'', JStr ''Input is required'')])), w) \<and>
         status (json_response 400 ch (JObj [(''error'', JStr ''Input is required'')])) = 400 \<and>
         new_calls w (snd (handleEmbeddings request env ch w)) = []"
  using assms not_null_destructurable [of body "''input''"]
  by (simp add: handleEmbeddings_def Let_def json_response_def)

text \<open>The empty string as input; a null and an absent input are falsy as well.\<close>

theorem falsy_input_is_400_witness:
  "method (req ''POST'' ''/v1/embeddings'' (JObj [(''input'', JStr [])])) = ''POST'' \<and>
   json (req ''POST'' ''/v1/embeddings'' (JObj [(''input'', JStr [])])) = Inr (JObj [(''input'', JStr [])]) \<and>
   JObj [(''input'', JStr [])] \<noteq> JNull \<and> JObj [(''input'', JStr [])] \<noteq> JUndefined \<and>
   \<not> truthy (field (JObj [(''input'', JStr [])]) ''input'') \<and>
   \<not> truthy (field (JObj [(''input'', JNull)]) ''input'') \<and>
   \<not> truthy (field (JObj [(''model'', JStr ''m'')]) ''input'') \<and>
   handleEmbeddings (req ''POST'' ''/v1/embeddings'' (JObj [(''input'', JStr [])])) (resolving JNull) corsHeaders w0 =
     (Inr (json_response 400 corsHeaders (JObj [(''error'', JStr ''Input is required'')])), w0)"
  using falsy_input_is_400 [of "req ''POST'' ''/v1/embeddings'' (JObj [(''input'', JStr [])])"
      "JObj [(''input'', JStr [])]" "resolving JNull" corsHeaders w0]
  by (simp add: req_def field_def)

subsection \<open>C4: a missing required field\<close>

text \<open>
  Claim C4 says that every POST whose body lacks the required field is answered with 400
  without the backend being invoked. Both handlers check the field and answer 400, but
  they destructure the parsed body before the check. The JSON body \<^verbatim>\<open>null\<close> has no field
  at all, and destructuring it throws: the fault escapes the handler before the check is
  reached and the dispatcher answers 500.
\<close>

theorem null_body_is_not_400:
  "method (req ''POST'' ''/v1/chat/completions'' JNull) = ''POST'' \<and>
   json (req ''POST'' ''/v1/chat/completions'' JNull) = Inr JNull \<and>
   \<not> exposes JNull ''messages'' \<and>
   status_of (handleChatCompletions (req ''POST'' ''/v1/chat/completions'' JNull)
                (resolving JNull) corsHeaders w0) = None \<and>
   status (fst (fetch (req ''POST'' ''/v1/chat/completions'' JNull) (resolving JNull) w0)) = 500 \<and>
   status_of (handleEmbeddings (req ''POST'' ''/v1/embeddings'' JNull)
                (resolving JNull) corsHeaders w0) = None \<and>
   status (fst (fetch (req ''POST'' ''/v1/embeddings'' JNull) (resolving JNull) w0)) = 500"
  by (simp add: req_def status_of_def handleChatCompletions_def handleEmbeddings_def
        json_response_def fetch_def route_def)

text \<open>At this input neither endpoint answers with the status 400 that the claim requires.\<close>

theorem null_body_is_not_400_witness:
  "status (fst (fetch (req ''POST'' ''/v1/chat/completions'' JNull) (resolving JNull) w0)) \<noteq> 400 \<and>
   status (fst (fetch (req ''POST'' ''/v1/embeddings'' JNull) (resolving JNull) w0)) \<noteq> 400"
  using null_body_is_not_400 by simp

text \<open>
  Every other body is answered as the claim says: for every POST whose body parses to a
  JSON value other than \<^verbatim>\<open>null\<close>, the chat handler answers 400 when the body has no
  \<^verbatim>\<open>messages\<close> field or the field is not an array, the embeddings handler answers 400 when
  the body has no \<^verbatim>\<open>input\<close> field, and in both cases the world, and with it the trace of
  backend calls, is unchanged.
\<close>

theorem missing_field_is_400:
  assumes "method request = ''POST''" and "json request = Inr body"
    and "body \<noteq> JNull" and "body \<noteq> JUndefined"
  shows "(\<not> exposes body ''messages'' \<or> \<not> Array_isArray (field body ''messages'') \<longrightarrow>
            handleChatCompletions request env ch w =
              (Inr (json_response 400 ch (JObj [(''error'', JStr ''Messages array is required'')])), w)) \<and>
         (\<not> exposes body ''input'' \<longrightarrow>
            handleEmbeddings request env ch w =
              (Inr (json_response 400 ch (JObj [(''error'', JStr ''Input is required'')])), w)) \<and>
         status (json_response 400 ch (JObj [(''error'', JStr ''Messages array is required'')])) = 400 \<and>
         status (json_response 400 ch (JObj [(''error'', JStr ''Input is required'')])) = 400"
proof -
  have absent: "field body k = JUndefined" if "\<not> exposes body k" for k
    using that by (cases body) (force simp: field_def dest: map_of_SomeD split: option.splits)+
  have ds: "destructurable body k = Inr ()" for k
    using assms(3,4) by (rule not_null_destructurable)
  have "handleChatCompletions request env ch w =
              (Inr (json_response 400 ch (JObj [(''error'', JStr ''Messages array is required'')])), w)"
    if "\<not> Array_isArray (field body ''messages'')"
    using that assms(1,2) ds by (simp add: handleChatCompletions_def Let_def)
  moreover have "\<not> Array_isArray (field body ''messages'')" if "\<not> exposes body ''messages''"
    using absent [OF that] by simp
  moreover have "handleEmbeddings request env ch w =
              (Inr (json_response 400 ch (JObj [(''error'', JStr ''Input is required'')])), w)"
    if "\<not> exposes body ''input''"
    using absent [OF that] assms(1,2) ds by (simp add: handleEmbeddings_def Let_def)
  ultimately show ?thesis
    by (auto simp: json_response_def)
qed

text \<open>A body with a \<^verbatim>\<open>model\<close> only, sent to either handler.\<close>

theorem missing_field_is_400_witness:
  "method (req ''POST'' ''/v1/chat/completions'' (JObj [(''model'', JStr ''m'')])) = ''POST'' \<and>
   json (req ''POST'' ''/v1/chat/completions'' (JObj [(''model'', JStr ''m'')])) = Inr (JObj [(''model'', JStr ''m'')]) \<and>
   JObj [(''model'', JStr ''m'')] \<noteq> JNull \<and> JObj [(''model'', JStr ''m'')] \<noteq> JUndefined \<and>
   \<not> exposes (JObj [(''model'', JStr ''m'')]) ''messages'' \<and>
   \<not> exposes (JObj [(''model'', JStr ''m'')]) ''input'' \<and>
   handleChatCompletions (req ''POST'' ''/v1/chat/completions'' (JObj [(''model'', JStr ''m'')]))
       (resolving JNull) corsHeaders w0 =
     (Inr (json_response 400 corsHeaders (JObj [(''error'', JStr ''Messages array is required'')])), w0) \<and>
   handleEmbeddings (req ''POST'' ''/v1/chat/completions'' (JObj [(''model'', JStr ''m'')]))
       (resolving JNull) corsHeaders w0 =
     (Inr (json_response 400 corsHeaders (JObj [(''error'', JStr ''Input is required'')])), w0)"
  using missing_field_is_400 [of "req ''POST'' ''/v1/chat/completions'' (JObj [(''model'', JStr ''m'')])"
      "JObj [(''model'', JStr ''m'')]" "resolving JNull" corsHeaders w0]
  by (simp add: req_def)

subsection \<open>C5: a failing backend call aborts the batch\<close>

text \<open>
  Claim C5: if any backend call made while handling an embedding request is rejected, the
  handler answers with status 500 and the envelope \<^verbatim>\<open>{error, message}\<close>, whose message is
  that of the rejected call; the envelope has no \<^verbatim>\<open>data\<close>, so no partial result is
  returned.
\<close>

theorem failed_call_aborts_batch:
  assumes "handleEmbeddings request env ch w = (r, w')"
    and "c \<in> set (new_calls w w')" and "call_outcome c = Inl e"
  shows "\<exists>resp. r = Inr resp \<and> status resp = 500 \<and>
           payload resp = JObj [(''error'', JStr ''Failed to generate embeddings''),
                                (''message'', error_message e)] \<and>
           field (payload resp) ''error'' = JStr ''Failed to generate embeddings'' \<and>
           field (payload resp) ''data'' = JUndefined"
proof (cases "method request = ''POST''")
  case False
  with assms show ?thesis
    by (simp add: embeddings_not_post)
next
  case True
  show ?thesis
  proof (cases "json request")
    case (Inl x)
    with True assms show ?thesis
      by (simp add: handleEmbeddings_def)
  next
    case (Inr body)
    let ?input = "field body ''input''"
    let ?model = "with_default (field body ''model'') (JStr ''@cf/baai/bge-large-en-v1.5'')"
    show ?thesis
    proof (cases "destructurable body ''input'' = Inr () \<and> truthy ?input")
      case False
      with True Inr assms show ?thesis
        by (auto simp: handleEmbeddings_def Let_def split: sum.splits)
    next
      case ok: True
      obtain l w1 where l: "embed_loop env ?model (inputs_of ?input) 0 [] w = (l, w1)"
        by (cases "embed_loop env ?model (inputs_of ?input) 0 [] w")
      from True Inr ok l assms(1) have w1: "w' = w1"
        by (auto simp: handleEmbeddings_def Let_def split: sum.splits)
      from embed_loop_trace [OF l] obtain cs where cs: "trace w1 = trace w @ cs"
        "\<forall>c\<in>set cs. \<forall>e. call_outcome c = Inl e \<longrightarrow> l = Inl e"
        by blast
      from cs(1) w1 assms(2) have "c \<in> set cs"
        by (simp add: new_calls_def)
      with cs(2) assms(3) have "l = Inl e" by blast
      with True Inr ok l assms(1) show ?thesis
        by (auto simp: handleEmbeddings_def Let_def json_response_def payload_def field_def)
    qed
  qed
qed

text \<open>
  Three inputs and a backend that rejects its second call: the first embedding was
  computed, the third was never asked for, and the answer is the error envelope alone.
\<close>

theorem failed_call_aborts_batch_witness:
  "handleEmbeddings
       (req ''POST'' ''/v1/embeddings'' (JObj [(''input'', JArr [JStr ''a'', JStr ''b'', JStr ''c''])]))
       (rejecting_at 1 (JObj [(''data'', JArr [JNum 1])])) corsHeaders w0 =
     (Inr (json_response 500 corsHeaders
             (JObj [(''error'', JStr ''Failed to generate embeddings''),
                    (''message'', JStr ''backend down'')])),
      \<lparr>ext = 2,
         trace = [\<lparr>call_model = JStr ''@cf/baai/bge-large-en-v1.5'',
                   call_params = JObj [(''text'', JStr ''a'')],
                   call_outcome = Inr (JObj [(''data'', JArr [JNum 1])])\<rparr>,
                  \<lparr>call_model = JStr ''@cf/baai/bge-large-en-v1.5'',
                   call_params = JObj [(''text'', JStr ''b'')],
                   call_outcome = Inl (Error ''backend down'')\<rparr>]\<rparr>) \<and>
   \<lparr>call_model = JStr ''@cf/baai/bge-large-en-v1.5'',
    call_params = JObj [(''text'', JStr ''b'')],
    call_outcome = Inl (Error ''backend down'')\<rparr>
     \<in> set (new_calls w0
         \<lparr>ext = 2,
         trace = [\<lparr>call_model = JStr ''@cf/baai/bge-large-en-v1.5'',
                   call_params = JObj [(''text'', JStr ''a'')],
                   call_outcome = Inr (JObj [(''data'', JArr [JNum 1])])\<rparr>,
                  \<lparr>call_model = JStr ''@cf/baai/bge-large-en-v1.5'',
                   call_params = JObj [(''text'', JStr ''b'')],
                   call_outcome = Inl (Error ''backend down'')\<rparr>]\<rparr>) \<and>
   field (payload (json_response 500 corsHeaders
             (JObj [(''error'', JStr ''Failed to generate embeddings''),
                    (''message'', JStr ''backend down'')]))) ''data'' = JUndefined"
proof -
  let ?r = "req ''POST'' ''/v1/embeddings'' (JObj [(''input'', JArr [JStr ''a'', JStr ''b'', JStr ''c''])])"
  let ?env = "rejecting_at 1 (JObj [(''data'', JArr [JNum 1])])"
  let ?failed = "\<lparr>call_model = JStr ''@cf/baai/bge-large-en-v1.5'',
                   call_params = JObj [(''text'', JStr ''b'')],
                   call_outcome = Inl (Error ''backend down'')\<rparr>"
  let ?w = "\<lparr>ext = 2,
         trace = [\<lparr>call_model = JStr ''@cf/baai/bge-large-en-v1.5'',
                   call_params = JObj [(''text'', JStr ''a'')],
                   call_outcome = Inr (JObj [(''data'', JArr [JNum 1])])\<rparr>, ?failed]\<rparr>"
  have run: "handleEmbeddings ?r ?env corsHeaders w0 =
     (Inr (json_response 500 corsHeaders
             (JObj [(''error'', JStr ''Failed to generate embeddings''),
                    (''message'', JStr ''backend down'')])), ?w)"
    by (simp add: req_def field_def handleEmbeddings_def Let_def with_default_def inputs_of_def
        embed_loop.simps run_def rejecting_at_def w0_def js_or_def)
  have mem: "?failed \<in> set (new_calls w0 ?w)"
    by (simp add: new_calls_def w0_def)
  have out: "call_outcome ?failed = Inl (Error ''backend down'')"
    by simp
  from failed_call_aborts_batch [OF run mem out] run mem show ?thesis
    by (simp add: json_response_def payload_def)
qed

subsection \<open>C6: the model catalog\<close>

text \<open>
  Claim C6: the model catalog answers with status 200 and the envelope
  \<^verbatim>\<open>{object: "list", data: [...]}\<close> holding the same five descriptors whatever headers it is
  given; through the dispatcher the answer to any request for \<^verbatim>\<open>/v1/models\<close> other than a
  preflight is this response, whatever the environment and the world, and the world is
  left as it was.
\<close>

theorem models_fixed_catalog:
  "status (handleModels ch) = 200 \<and>
   payload (handleModels ch) = payload (handleModels ch') \<and>
   field (payload (handleModels ch)) ''object'' = JStr ''list'' \<and>
   (\<exists>ds. field (payload (handleModels ch)) ''data'' = JArr ds \<and> length ds = 5 \<and>
      map (\<lambda>d. field d ''id'') ds =
        [JStr ''@cf/meta/llama-3.3-70b-instruct-fp8-fast'', JStr ''@cf/meta/llama-3.1-70b-instruct'',
         JStr ''@cf/meta/llama-3-8b-instruct'', JStr ''@cf/baai/bge-large-en-v1.5'',
         JStr ''@cf/baai/bge-base-en-v1.5''] \<and>
      (\<forall>d\<in>set ds. field d ''object'' = JStr ''model'' \<and> field d ''created'' = JNum 1677610602
         \<and> field d ''owned_by'' = JStr ''cloudflare'')) \<and>
   (method request \<noteq> ''OPTIONS'' \<and> pathname request = ''/v1/models'' \<longrightarrow>
      fetch request env w = (handleModels corsHeaders, w))"
  by (simp add: handleModels_def json_response_def payload_def models_def field_def
        fetch_def route_def)

text \<open>The same answer from two different backends in two different worlds.\<close>

theorem models_fixed_catalog_witness:
  "method (req ''GET'' ''/v1/models'' JNull) \<noteq> ''OPTIONS'' \<and>
   pathname (req ''GET'' ''/v1/models'' JNull) = ''/v1/models'' \<and>
   fetch (req ''GET'' ''/v1/models'' JNull) (rejecting_at 0 JNull) w0 = (handleModels corsHeaders, w0) \<and>
   fetch (req ''GET'' ''/v1/models'' JNull) (resolving JNull) \<lparr>ext = 7, trace = []\<rparr> =
     (handleModels corsHeaders, \<lparr>ext = 7, trace = []\<rparr>)"
  using models_fixed_catalog [of corsHeaders corsHeaders "req ''GET'' ''/v1/models'' JNull" "rejecting_at 0 JNull" w0]
    models_fixed_catalog [of corsHeaders corsHeaders "req ''GET'' ''/v1/models'' JNull" "resolving JNull"
      "\<lparr>ext = 7, trace = []\<rparr>"]
  by (simp add: req_def)

subsection \<open>C7: CORS headers and preflight requests\<close>

text \<open>
  Claim C7: every response of the dispatcher carries the three CORS headers, whatever the
  request, the backend and the status; so does every response of a handler that is given
  these headers; and an OPTIONS request to any path is answered, before any routing, with
  status 200, a null body and exactly the CORS headers.
\<close>

theorem cors_on_every_response:
  "carries_cors (fst (fetch request env w)) \<and>
   (method request = ''OPTIONS'' \<longrightarrow>
      fetch request env w = (\<lparr>status = 200, headers = corsHeaders, resp_body = Null_body\<rparr>, w)) \<and>
   carries_cors (handleModels corsHeaders) \<and>
   (\<forall>resp w'. handleChatCompletions request env corsHeaders w = (Inr resp, w') \<longrightarrow> carries_cors resp) \<and>
   (\<forall>resp w'. handleEmbeddings request env corsHeaders w = (Inr resp, w') \<longrightarrow> carries_cors resp)"
proof -
  have "carries_cors (fst (fetch request env w))"
  proof (cases "method request = ''OPTIONS''")
    case True
    then show ?thesis
      by (simp add: fetch_def carries_cors_def corsHeaders_def)
  next
    case False
    obtain r w1 where r: "route request env w = (r, w1)"
      by (cases "route request env w")
    show ?thesis
    proof (cases r)
      case (Inl error)
      with False r show ?thesis
        by (simp add: fetch_def json_response_def cors_after_content_type)
    next
      case (Inr resp)
      with False r route_headers [of request env w resp w1] show ?thesis
        by (simp add: fetch_def cors_after_content_type)
    qed
  qed
  moreover have "method request = ''OPTIONS'' \<longrightarrow>
      fetch request env w = (\<lparr>status = 200, headers = corsHeaders, resp_body = Null_body\<rparr>, w)"
    by (simp add: fetch_def)
  moreover have "carries_cors (handleModels corsHeaders)"
    by (simp add: handleModels_def json_response_def cors_after_content_type)
  ultimately show ?thesis
    by (blast intro: cors_after_content_type dest: chat_headers embeddings_headers)
qed

text \<open>A preflight to a path that does not exist, and a 405 from the embeddings handler.\<close>

theorem cors_on_every_response_witness:
  "method (req ''OPTIONS'' ''/no/such/path'' JNull) = ''OPTIONS'' \<and>
   fetch (req ''OPTIONS'' ''/no/such/path'' JNull) (resolving JNull) w0 =
     (\<lparr>status = 200, headers = corsHeaders, resp_body = Null_body\<rparr>, w0) \<and>
   handleEmbeddings (req ''GET'' ''/v1/embeddings'' JNull) (resolving JNull) corsHeaders w0 =
     (Inr (json_response 405 corsHeaders (JObj [(''error'', JStr ''Method not allowed'')])), w0) \<and>
   carries_cors (json_response 405 corsHeaders (JObj [(''error'', JStr ''Method not allowed'')]))"
  using cors_on_every_response [of "req ''OPTIONS'' ''/no/such/path'' JNull" "resolving JNull" w0]
    cors_on_every_response [of "req ''GET'' ''/v1/embeddings'' JNull" "resolving JNull" w0]
  by (simp add: req_def embeddings_not_post)

subsection \<open>C8: methods other than POST\<close>

text \<open>
  Claim C8: for a request whose method is not POST, the chat handler and the embeddings
  handler answer with status 405 and leave the world unchanged, so the backend is not
  invoked. Through the dispatcher the same holds on both paths for every method that
  reaches a handler, that is every method but OPTIONS.
\<close>

theorem non_post_is_405:
  "method request \<noteq> ''POST'' \<Longrightarrow>
     (\<exists>resp. handleChatCompletions request env ch w = (Inr resp, w) \<and> status resp = 405
        \<and> payload resp = JObj [(''error'', JStr ''Method not allowed'')]) \<and>
     (\<exists>resp. handleEmbeddings request env ch w = (Inr resp, w) \<and> status resp = 405
        \<and> payload resp = JObj [(''error'', JStr ''Method not allowed'')]) \<and>
     (method request \<noteq> ''OPTIONS'' \<and>
      (pathname request = ''/v1/chat/completions'' \<or> pathname request = ''/v1/embeddings'') \<longrightarrow>
        status (fst (fetch request env w)) = 405 \<and> snd (fetch request env w) = w)"
  by (auto simp: chat_not_post embeddings_not_post json_response_def payload_def fetch_def route_def)

text \<open>A GET request.\<close>

theorem non_post_is_405_witness:
  "method (req ''GET'' ''/v1/chat/completions'' JNull) \<noteq> ''POST'' \<and>
   status_of (handleChatCompletions (req ''GET'' ''/v1/chat/completions'' JNull) (resolving JNull) corsHeaders w0) = Some 405 \<and>
   status_of (handleEmbeddings (req ''GET'' ''/v1/chat/completions'' JNull) (resolving JNull) corsHeaders w0) = Some 405 \<and>
   fetch (req ''GET'' ''/v1/chat/completions'' JNull) (resolving JNull) w0 =
     (json_response 405 corsHeaders (JObj [(''error'', JStr ''Method not allowed'')]), w0)"
  using non_post_is_405 [of "req ''GET'' ''/v1/chat/completions'' JNull" "resolving JNull" corsHeaders w0]
  by (auto simp: req_def status_of_def fetch_def route_def chat_not_post)

subsection \<open>C9: a body that is not JSON\<close>

text \<open>
  Claim C9: when \<^verbatim>\<open>request.json()\<close> rejects on a POST, the fault escapes both handlers
  (neither answers with a response of its own), the world is unchanged, and the dispatcher
  turns the fault into the generic envelope \<^verbatim>\<open>{error: "Internal server error", message}\<close>
  with status 500.
\<close>

theorem unparseable_body_is_500:
  "method request = ''POST'' \<Longrightarrow> json request = Inl e \<Longrightarrow>
     handleChatCompletions request env ch w = (Inl e, w) \<and>
     handleEmbeddings request env ch w = (Inl e, w) \<and>
     (pathname request = ''/v1/chat/completions'' \<or> pathname request = ''/v1/embeddings'' \<longrightarrow>
        fetch request env w =
          (json_response 500 corsHeaders
             (JObj [(''error'', JStr ''Internal server error''), (''message'', error_message e)]), w))"
  by (auto simp: handleChatCompletions_def handleEmbeddings_def fetch_def route_def)

text \<open>A POST to the embeddings path whose body fails to parse.\<close>

theorem unparseable_body_is_500_witness:
  "method (bad_json_req ''/v1/embeddings'') = ''POST'' \<and>
   json (bad_json_req ''/v1/embeddings'') = Inl (Error ''Unexpected token'') \<and>
   pathname (bad_json_req ''/v1/embeddings'') = ''/v1/embeddings'' \<and>
   handleEmbeddings (bad_json_req ''/v1/embeddings'') (resolving JNull) corsHeaders w0 =
     (Inl (Error ''Unexpected token''), w0) \<and>
   status (fst (fetch (bad_json_req ''/v1/embeddings'') (resolving JNull) w0)) = 500 \<and>
   snd (fetch (bad_json_req ''/v1/embeddings'') (resolving JNull) w0) = w0"
  using unparseable_body_is_500 [of "bad_json_req ''/v1/embeddings''" "Error ''Unexpected token''"
      "resolving JNull" corsHeaders w0]
  by (simp add: bad_json_req_def json_response_def)

subsection \<open>C10: an empty array as input\<close>

text \<open>
  Claim C10: a POST embedding request whose \<^verbatim>\<open>input\<close> is the empty array passes validation;
  the handler answers 200 with an empty \<^verbatim>\<open>data\<close> array and leaves the world, and so the
  trace of backend calls, as it was.
\<close>

theorem empty_input_array_succeeds:
  "method request = ''POST'' \<Longrightarrow> json request = Inr body \<Longrightarrow> field body ''input'' = JArr [] \<Longrightarrow>
     handleEmbeddings request env ch w =
       (Inr (json_response 200 ch
               (JObj [(''object'', JStr ''list''),
                      (''data'', JArr []),
                      (''model'', with_default (field body ''model'') (JStr ''@cf/baai/bge-large-en-v1.5'')),
                      (''usage'', JObj [(''prompt_tokens'', JNum 0), (''total_tokens'', JNum 0)])])),
        w)"
  using field_destructurable [of body "''input''" "''input''"]
  by (simp add: handleEmbeddings_def Let_def inputs_of_def embed_loop.simps)

text \<open>The request \<^verbatim>\<open>{"input": []}\<close>, with a backend that would reject its first call.\<close>

theorem empty_input_array_succeeds_witness:
  "method (req ''POST'' ''/v1/embeddings'' (JObj [(''input'', JArr [])])) = ''POST'' \<and>
   json (req ''POST'' ''/v1/embeddings'' (JObj [(''input'', JArr [])])) = Inr (JObj [(''input'', JArr [])]) \<and>
   field (JObj [(''input'', JArr [])]) ''input'' = JArr [] \<and>
   status_of (handleEmbeddings (req ''POST'' ''/v1/embeddings'' (JObj [(''input'', JArr [])]))
                (rejecting_at 0 JNull) corsHeaders w0) = Some 200 \<and>
   new_calls w0 (snd (handleEmbeddings (req ''POST'' ''/v1/embeddings'' (JObj [(''input'', JArr [])]))
                (rejecting_at 0 JNull) corsHeaders w0)) = [] \<and>
   field (payload (json_response 200 corsHeaders
               (JObj [(''object'', JStr ''list''),
                      (''data'', JArr []),
                      (''model'', JStr ''@cf/baai/bge-large-en-v1.5''),
                      (''usage'', JObj [(''prompt_tokens'', JNum 0), (''total_tokens'', JNum 0)])]))) ''data'' = JArr []"
  using empty_input_array_succeeds [of "req ''POST'' ''/v1/embeddings'' (JObj [(''input'', JArr [])])"
      "JObj [(''input'', JArr [])]" "rejecting_at 0 JNull" corsHeaders w0]
  by (simp add: req_def field_def status_of_def json_response_def payload_def)

end
